theory Spec2Isabelle
  imports Complex_Main "HOL-Library.AList" "HOL-Library.Char_ord" "HOL-Library.List_Lexorder"
begin

section \<open>Errors and CML records\<close>

text \<open>
  Python exceptions raised by the pipeline become values of \<open>error\<close>; a function that
  may raise returns \<open>error + 'a\<close> with \<open>Inl\<close> for the exception.
\<close>

datatype error =
    ValueError string
  | KeyError string
  | IndexError
  | NotFittedError
  | FileNotFoundError
  | UnpicklingError

text \<open>
  The attributes of a CML object that \<open>_cmls_to_dataframe\<close> reads. \<open>None\<close> is Python's
  \<open>None\<close>. \<open>risk_level\<close> holds the enum member's \<open>.value\<close> string when the member is set.
\<close>

record cml =
  cml_id :: string
  commodity :: "string option"
  material_type :: "string option"
  feature_type :: "string option"
  risk_level :: "string option"
  design_thickness_mm :: "real option"
  current_thickness_mm :: "real option"
  average_corrosion_rate :: "real option"
  remaining_life_years :: "real option"
  years_in_service :: "real option"
  number_of_inspections :: "real option"
  data_quality_score :: "real option"
  elimination_candidate :: "bool option"

section \<open>preprocess.py\<close>

subsection \<open>Data frames\<close>

text \<open>
  A pandas DataFrame is a list of named columns in insertion order. A column of strings
  or of floats holds \<open>None\<close> where pandas holds a missing value (\<open>None\<close>/NaN). In a float
  column computed by arithmetic, \<open>None\<close> stands for any non-finite result (NaN or an
  infinity): numpy does not raise on a float division by zero.
\<close>

datatype column =
    StrCol "string option list"
  | NumCol "real option list"
  | IntCol "int list"
  | BoolCol "bool option list"

type_synonym frame = "(string \<times> column) list"

text \<open>\<open>col in df.columns\<close>\<close>

definition has_column :: "frame \<Rightarrow> string \<Rightarrow> bool" where
  "has_column df col = (map_of df col \<noteq> None)"

text \<open>
  \<open>df[col]\<close> read as a float column, and as a string column. The columns a frame built by
  \<open>cmls_to_dataframe\<close> holds under the names read here are of that kind; the other cases
  do not arise and read as the empty column.
\<close>

definition num_column :: "frame \<Rightarrow> string \<Rightarrow> real option list" where
  "num_column df col = (case map_of df col of Some (NumCol xs) \<Rightarrow> xs | _ \<Rightarrow> [])"

definition str_column :: "frame \<Rightarrow> string \<Rightarrow> string option list" where
  "str_column df col = (case map_of df col of Some (StrCol xs) \<Rightarrow> xs | _ \<Rightarrow> [])"

text \<open>The present (non-missing) values of a column, in order.\<close>

fun dropna :: "'a option list \<Rightarrow> 'a list" where
  "dropna [] = []"
| "dropna (None # xs) = dropna xs"
| "dropna (Some x # xs) = x # dropna xs"

text \<open>\<open>Series.fillna(v)\<close>; filling with NaN (\<open>None\<close>) leaves the missing values missing.\<close>

definition fillna :: "'a option \<Rightarrow> 'a option list \<Rightarrow> 'a option list" where
  "fillna v xs = map (\<lambda>x. case x of None \<Rightarrow> v | Some y \<Rightarrow> Some y) xs"

text \<open>
  \<open>Series.median()\<close>: the median of the present values (the mean of the two middle ones
  when their number is even), NaN when there is none.
\<close>

definition median :: "real option list \<Rightarrow> real option" where
  "median xs =
     (let ys = sort (dropna xs); n = length ys in
      if n = 0 then None
      else if odd n then Some (ys ! (n div 2))
      else Some ((ys ! (n div 2 - 1) + ys ! (n div 2)) / 2))"

text \<open>
  \<open>Series.mode()\<close>: the most frequent present values, in ascending order; empty when
  every value is missing.
\<close>

definition mode :: "string option list \<Rightarrow> string list" where
  "mode xs =
     (let ys = dropna xs; m = fold max (map (count_list ys) ys) 0
      in filter (\<lambda>v. count_list ys v = m) (sort (remdups ys)))"

text \<open>\<open>Series.astype(str)\<close> on a column of strings: \<open>None\<close> becomes the string 'None'.\<close>

definition astype_str :: "string option list \<Rightarrow> string list" where
  "astype_str xs = map (\<lambda>x. case x of None \<Rightarrow> ''None'' | Some s \<Rightarrow> s) xs"

subsection \<open>LabelEncoder and StandardScaler (scikit-learn)\<close>

text \<open>
  \<open>LabelEncoder.fit\<close> keeps \<open>classes_\<close>, the sorted distinct labels; \<open>transform\<close> maps a
  label to its position in \<open>classes_\<close>.
\<close>

definition le_fit :: "string list \<Rightarrow> string list" where
  "le_fit vals = sort (remdups vals)"

fun index_of :: "'a list \<Rightarrow> 'a \<Rightarrow> nat" where
  "index_of [] x = 0"
| "index_of (y # ys) x = (if x = y then 0 else Suc (index_of ys x))"

definition le_transform :: "string list \<Rightarrow> string \<Rightarrow> int" where
  "le_transform classes x = int (index_of classes x)"

text \<open>
  \<open>StandardScaler\<close>: per column the mean and the population standard deviation of the
  present values, a zero deviation replaced by 1. Missing values are disregarded in
  \<open>fit\<close> and kept in \<open>transform\<close>. A column with no present value has NaN statistics
  (\<open>None\<close>). \<open>transform\<close> on a scaler that was never fitted raises \<open>NotFittedError\<close>, on
  another number of columns than it was fitted on a \<open>ValueError\<close>.
\<close>

definition mean :: "real list \<Rightarrow> real" where
  "mean ys = sum_list ys / real (length ys)"

definition variance :: "real list \<Rightarrow> real" where
  "variance ys = sum_list (map (\<lambda>y. (y - mean ys)\<^sup>2) ys) / real (length ys)"

definition column_stats :: "real option list \<Rightarrow> (real \<times> real) option" where
  "column_stats xs =
     (case dropna xs of
        [] \<Rightarrow> None
      | y # ys \<Rightarrow>
          Some (mean (y # ys),
                (let s = sqrt (variance (y # ys)) in if s = 0 then 1 else s)))"

definition scale_column :: "(real \<times> real) option \<Rightarrow> real option list \<Rightarrow> real option list" where
  "scale_column st xs =
     (case st of
        None \<Rightarrow> map (\<lambda>_. None) xs
      | Some (mu, s) \<Rightarrow> map (map_option (\<lambda>x. (x - mu) / s)) xs)"

definition scaler_fit :: "real option list list \<Rightarrow> (real \<times> real) option list" where
  "scaler_fit cols = map column_stats cols"

definition scaler_transform ::
  "(real \<times> real) option list option \<Rightarrow> real option list list \<Rightarrow> error + real option list list" where
  "scaler_transform sc cols =
     (case sc of
        None \<Rightarrow> Inl NotFittedError
      | Some sts \<Rightarrow>
          if length sts \<noteq> length cols then Inl (ValueError ''X has a different number of features'')
          else Inr (map2 scale_column sts cols))"

subsection \<open>CMLPreprocessor\<close>

record CMLPreprocessor =
  scaler :: "(real \<times> real) option list option"
  label_encoders :: "(string \<times> string list) list"
  categorical_features :: "string list"
  numerical_features :: "string list"

text \<open>\<open>__init__\<close>: an unfitted scaler and no encoder.\<close>

definition init_preprocessor :: CMLPreprocessor where
  "init_preprocessor =
     \<lparr> scaler = None,
       label_encoders = [],
       categorical_features = [''commodity'', ''material_type'', ''feature_type'', ''risk_level''],
       numerical_features =
         [''design_thickness_mm'', ''current_thickness_mm'',
          ''average_corrosion_rate'', ''remaining_life_years'',
          ''years_in_service'', ''number_of_inspections'', ''data_quality_score''] \<rparr>"

text \<open>\<open>_cmls_to_dataframe\<close>: \<open>pd.DataFrame([])\<close> has no column at all.\<close>

definition cmls_to_dataframe :: "cml list \<Rightarrow> frame" where
  "cmls_to_dataframe cmls =
     (if cmls = [] then []
      else
        [(''cml_id'', StrCol (map (\<lambda>c. Some (cml_id c)) cmls)),
         (''commodity'', StrCol (map commodity cmls)),
         (''material_type'', StrCol (map material_type cmls)),
         (''feature_type'', StrCol (map feature_type cmls)),
         (''risk_level'',
            StrCol (map (\<lambda>c. case risk_level c of Some v \<Rightarrow> Some v | None \<Rightarrow> Some ''Unknown'') cmls)),
         (''design_thickness_mm'', NumCol (map design_thickness_mm cmls)),
         (''current_thickness_mm'', NumCol (map current_thickness_mm cmls)),
         (''average_corrosion_rate'', NumCol (map average_corrosion_rate cmls)),
         (''remaining_life_years'', NumCol (map remaining_life_years cmls)),
         (''years_in_service'', NumCol (map years_in_service cmls)),
         (''number_of_inspections'', NumCol (map number_of_inspections cmls)),
         (''data_quality_score'', NumCol (map data_quality_score cmls)),
         (''elimination_candidate'', BoolCol (map elimination_candidate cmls))])"

text \<open>
  \<open>_handle_missing_values\<close>: one step of each of its two loops, then the function. The
  statistics are those of the frame passed in. \<open>df[col].fillna(v, inplace=True)\<close> is
  taken to update the frame's column, as it does when pandas runs without copy-on-write.
\<close>

definition fill_numerical :: "string \<Rightarrow> frame \<Rightarrow> frame" where
  "fill_numerical col df =
     (if has_column df col then
        AList.update col (NumCol (fillna (median (num_column df col)) (num_column df col))) df
      else df)"

definition fill_categorical :: "string \<Rightarrow> frame \<Rightarrow> frame" where
  "fill_categorical col df =
     (if has_column df col then
        AList.update col
          (StrCol (fillna
             (Some (if mode (str_column df col) \<noteq> [] then hd (mode (str_column df col))
                    else ''Unknown''))
             (str_column df col))) df
      else df)"

definition handle_missing_values :: "CMLPreprocessor \<Rightarrow> frame \<Rightarrow> frame" where
  "handle_missing_values self df =
     fold fill_categorical (categorical_features self)
       (fold fill_numerical (numerical_features self) df)"

text \<open>
  Float arithmetic on cells: a missing or non-finite operand gives a non-finite result,
  and so does a division by zero.
\<close>

definition fmul :: "real option \<Rightarrow> real option \<Rightarrow> real option" where
  "fmul a b = (case (a, b) of (Some x, Some y) \<Rightarrow> Some (x * y) | _ \<Rightarrow> None)"

definition fadd :: "real option \<Rightarrow> real \<Rightarrow> real option" where
  "fadd a c = map_option (\<lambda>x. x + c) a"

definition fdiv :: "real option \<Rightarrow> real option \<Rightarrow> real option" where
  "fdiv a b =
     (case (a, b) of
        (Some x, Some y) \<Rightarrow> if y = 0 then None else Some (x / y)
      | _ \<Rightarrow> None)"

text \<open>\<open>_engineer_features\<close>, on the columns as they are in the frame passed in.\<close>

definition engineer_features :: "frame \<Rightarrow> frame" where
  "engineer_features df0 =
     (let df1 =
        (if has_column df0 ''average_corrosion_rate'' \<and> has_column df0 ''years_in_service'' then
           AList.update ''total_corrosion_loss''
             (NumCol (map2 fmul (num_column df0 ''average_corrosion_rate'')
                                (num_column df0 ''years_in_service''))) df0
         else df0);
      df2 =
        (if has_column df1 ''current_thickness_mm'' \<and> has_column df1 ''design_thickness_mm'' then
           AList.update ''thickness_ratio''
             (NumCol (map2 fdiv (num_column df1 ''current_thickness_mm'')
                        (map (\<lambda>d. fadd d (1 / 1000000)) (num_column df1 ''design_thickness_mm'')))) df1
         else df1);
      df3 =
        (if has_column df2 ''number_of_inspections'' \<and> has_column df2 ''years_in_service'' then
           AList.update ''inspection_frequency''
             (NumCol (map2 fdiv (num_column df2 ''number_of_inspections'')
                        (map (\<lambda>y. fadd y 1) (num_column df2 ''years_in_service'')))) df2
         else df2);
      df4 =
        (if has_column df3 ''remaining_life_years'' then
           AList.update ''risk_score''
             (NumCol (map (\<lambda>r. fdiv (Some 1) (fadd r 1)) (num_column df3 ''remaining_life_years''))) df3
         else df3)
      in df4)"

text \<open>\<open>df[numerical_cols] = values\<close>: each named column is replaced.\<close>

definition assign_columns :: "string list \<Rightarrow> real option list list \<Rightarrow> frame \<Rightarrow> frame" where
  "assign_columns cols vals df =
     fold (\<lambda>cv d. AList.update (fst cv) (NumCol (snd cv)) d) (zip cols vals) df"

text \<open>One step of the encoding loop of \<open>fit_transform\<close>: fits the column's encoder.\<close>

definition fit_encoder :: "string \<Rightarrow> CMLPreprocessor \<times> frame \<Rightarrow> CMLPreprocessor \<times> frame" where
  "fit_encoder col sd =
     (let self = fst sd; df = snd sd in
      if has_column df col then
        (let vals = astype_str (str_column df col); classes = le_fit vals in
         (self\<lparr>label_encoders := AList.update col classes (label_encoders self)\<rparr>,
          AList.update (col @ ''_encoded'') (IntCol (map (le_transform classes) vals)) df))
      else (self, df))"

definition fit_transform :: "CMLPreprocessor \<Rightarrow> cml list \<Rightarrow> CMLPreprocessor \<times> frame" where
  "fit_transform self0 cmls =
     (let df0 = handle_missing_values self0 (cmls_to_dataframe cmls);
          sd = fold fit_encoder (categorical_features self0) (self0, df0);
          self1 = fst sd; df1 = snd sd;
          numerical_cols = filter (has_column df1) (numerical_features self1);
          sts = scaler_fit (map (num_column df1) numerical_cols);
          self2 = (if numerical_cols \<noteq> [] then self1\<lparr>scaler := Some sts\<rparr> else self1);
          df2 = (if numerical_cols \<noteq> [] then
                   assign_columns numerical_cols
                     (map2 scale_column sts (map (num_column df1) numerical_cols)) df1
                 else df1)
      in (self2, engineer_features df2))"

text \<open>
  The lambda of \<open>transform\<close>: a label among the encoder's \<open>classes_\<close> gets its position,
  any other label gets \<open>-1\<close>.
\<close>

definition encode_label :: "string list \<Rightarrow> string \<Rightarrow> int" where
  "encode_label classes x = (if x \<in> set classes then le_transform classes x else - 1)"

text \<open>One step of the encoding loop of \<open>transform\<close>: the fitted encoder is only read.\<close>

definition apply_encoder :: "CMLPreprocessor \<Rightarrow> string \<Rightarrow> frame \<Rightarrow> frame" where
  "apply_encoder self col df =
     (if has_column df col then
        (case map_of (label_encoders self) col of
           None \<Rightarrow> df
         | Some classes \<Rightarrow>
             AList.update (col @ ''_encoded'')
               (IntCol (map (encode_label classes) (astype_str (str_column df col)))) df)
      else df)"

definition transform :: "CMLPreprocessor \<Rightarrow> cml list \<Rightarrow> error + frame" where
  "transform self cmls =
     (let df0 = handle_missing_values self (cmls_to_dataframe cmls);
          df1 = fold (apply_encoder self) (categorical_features self) df0;
          numerical_cols = filter (has_column df1) (numerical_features self)
      in if numerical_cols \<noteq> [] then
           (case scaler_transform (scaler self) (map (num_column df1) numerical_cols) of
              Inl e \<Rightarrow> Inl e
            | Inr vals \<Rightarrow> Inr (engineer_features (assign_columns numerical_cols vals df1)))
         else Inr (engineer_features df1))"

section \<open>model\_elimination.py\<close>

text \<open>
  \<open>CMLEliminationModel\<close>: the four attributes that make up the persisted bundle. The
  classifier \<open>'m\<close> and the preprocessor \<open>'p\<close> are opaque here; \<open>metrics\<close> is a dict.
\<close>

record ('m, 'p) CMLEliminationModel =
  model :: "'m option"
  preprocessor :: 'p
  feature_columns :: "string list option"
  metrics :: "(string \<times> real) list"

record prediction =
  probability :: real
  confidence :: real
  recommendation :: string
  threshold_used :: real

text \<open>\<open>predictions = (probabilities >= threshold).astype(int)\<close>\<close>

definition predictions_of :: "real list \<Rightarrow> real \<Rightarrow> int list" where
  "predictions_of probabilities threshold =
     map (\<lambda>p. if p \<ge> threshold then 1 else 0) probabilities"

text \<open>
  The loop \<open>for i, cml in enumerate(cmls): results[cml.cml_id] = {...}\<close>. The dict is an
  association list in insertion order; assigning to a key that is already present
  replaces its value in place, as \<open>AList.update\<close> does. Indexing the numpy vectors at
  \<open>i\<close> beyond their length raises \<open>IndexError\<close>.
\<close>

fun build_results ::
  "nat \<Rightarrow> cml list \<Rightarrow> real list \<Rightarrow> int list \<Rightarrow> real \<Rightarrow>
   (string \<times> prediction) list \<Rightarrow> error + (string \<times> prediction) list" where
  "build_results i [] probabilities predictions threshold results = Inr results"
| "build_results i (c # rest) probabilities predictions threshold results =
     (if i < length probabilities \<and> i < length predictions then
        build_results (Suc i) rest probabilities predictions threshold
          (AList.update (cml_id c)
             \<lparr> probability = probabilities ! i,
               confidence = max (probabilities ! i) (1 - probabilities ! i),
               recommendation = (if predictions ! i = 1 then ''eliminate'' else ''keep''),
               threshold_used = threshold \<rparr>
             results)
      else Inl IndexError)"

text \<open>
  \<open>predict\<close>. Lines 89 to 93 (the preprocessor's \<open>transform\<close>, the column selection
  \<open>df[self.feature_columns]\<close> and the classifier's \<open>predict_proba(X)[:, 1]\<close>) are the
  parameter \<open>proba\<close>: it returns the vector of class-1 probabilities or raises.
\<close>

definition predict ::
  "('m \<Rightarrow> 'p \<Rightarrow> string list option \<Rightarrow> cml list \<Rightarrow> error + real list) \<Rightarrow>
   ('m, 'p) CMLEliminationModel \<Rightarrow> cml list \<Rightarrow> real \<Rightarrow>
   error + (string \<times> prediction) list" where
  "predict proba self cmls threshold =
     (case model self of
        None \<Rightarrow> Inl (ValueError ''Model not trained or loaded'')
      | Some m \<Rightarrow>
          (case proba m (preprocessor self) (feature_columns self) cmls of
             Inl e \<Rightarrow> Inl e
           | Inr probabilities \<Rightarrow>
               build_results 0 cmls probabilities
                 (predictions_of probabilities threshold) threshold []))"

text \<open>The number of entries of a result dict whose recommendation is 'eliminate'.\<close>

definition count_eliminate :: "(string \<times> prediction) list \<Rightarrow> nat" where
  "count_eliminate results =
     length (filter (\<lambda>kv. recommendation (snd kv) = ''eliminate'') results)"

text \<open>
  \<open>load_model\<close>. What \<open>open\<close> and \<open>pickle.load\<close> find at \<open>model_path\<close>: no file, bytes
  that do not unpickle, or a dict. Each field of \<open>model_data\<close> is \<open>None\<close> when the dict
  lacks that key; a stored classifier or column list may itself be Python's \<open>None\<close>.
\<close>

record ('m, 'p) model_data =
  data_model :: "'m option option"
  data_preprocessor :: "'p option"
  data_feature_columns :: "string list option option"
  data_metrics :: "(string \<times> real) list option"

datatype ('m, 'p) pickle_file =
    NoFile
  | Garbage
  | Pickled "('m, 'p) model_data"

text \<open>
  The four assignments run in the source's order inside the \<open>try\<close>; an exception leaves
  the block at once and the handler only logs it. The result is the object's state after
  the call and the exception the handler logged, if any. \<open>model_data.get('metrics', {})\<close>
  does not raise on a missing key.
\<close>

definition load_model ::
  "('m, 'p) pickle_file \<Rightarrow> ('m, 'p) CMLEliminationModel \<Rightarrow>
   ('m, 'p) CMLEliminationModel \<times> error option" where
  "load_model file self =
     (case file of
        NoFile \<Rightarrow> (self, Some FileNotFoundError)
      | Garbage \<Rightarrow> (self, Some UnpicklingError)
      | Pickled d \<Rightarrow>
          (case data_model d of
             None \<Rightarrow> (self, Some (KeyError ''model''))
           | Some m \<Rightarrow>
               (let self1 = self\<lparr>model := m\<rparr> in
                case data_preprocessor d of
                  None \<Rightarrow> (self1, Some (KeyError ''preprocessor''))
                | Some p \<Rightarrow>
                    (let self2 = self1\<lparr>preprocessor := p\<rparr> in
                     case data_feature_columns d of
                       None \<Rightarrow> (self2, Some (KeyError ''feature_columns''))
                     | Some fc \<Rightarrow>
                         (let self3 = self2\<lparr>feature_columns := fc\<rparr> in
                          (self3\<lparr>metrics := (case data_metrics d of None \<Rightarrow> [] | Some ms \<Rightarrow> ms)\<rparr>,
                           None))))))"

section \<open>model\_forecast.py\<close>

text \<open>
  A date is its day number; the historical frame is the list of its \<open>(ds, y)\<close> rows.
\<close>

datatype model_type = Prophet | Linear | Arima

type_synonym history = "(int \<times> real) list"

record forecast_row =
  ds :: int
  yhat :: real
  yhat_lower :: real
  yhat_upper :: real

text \<open>
  \<open>LinearRegression().fit(X, y)\<close> with one regressor: the least-squares coefficient and
  intercept. When all regressor values are equal the centred least-squares problem has
  the minimum-norm solution, coefficient 0. A fit on no sample raises \<open>ValueError\<close>, and
  so does a prediction for no row.
\<close>

definition ols_fit :: "real list \<Rightarrow> real list \<Rightarrow> real \<times> real" where
  "ols_fit xs ys =
     (let mx = mean xs; my = mean ys;
          sxx = sum_list (map (\<lambda>x. (x - mx)\<^sup>2) xs);
          sxy = sum_list (map2 (\<lambda>x y. (x - mx) * (y - my)) xs ys);
          coef = (if sxx = 0 then 0 else sxy / sxx)
      in (coef, my - coef * mx))"

definition ols_predict :: "real \<times> real \<Rightarrow> real \<Rightarrow> real" where
  "ols_predict m x = snd m + fst m * x"

text \<open>\<open>np.std\<close>: the population standard deviation.\<close>

definition np_std :: "real list \<Rightarrow> real" where
  "np_std xs = sqrt (variance xs)"

text \<open>\<open>df['days']\<close>, the fitted model and the in-sample residuals of \<open>_linear_forecast\<close>.\<close>

definition days :: "history \<Rightarrow> real list" where
  "days df = map (\<lambda>r. real_of_int (fst r - Min (set (map fst df)))) df"

definition fitted :: "history \<Rightarrow> real \<times> real" where
  "fitted df = ols_fit (days df) (map snd df)"

definition residuals :: "history \<Rightarrow> real list" where
  "residuals df = map2 (\<lambda>y x. y - ols_predict (fitted df) x) (map snd df) (days df)"

text \<open>
  \<open>_linear_forecast\<close>. The fit raises on an empty history. \<open>range(1, periods+1)\<close> is empty
  for a horizon below 1; \<open>model.predict\<close> on the resulting array of no row raises the same
  \<open>ValueError\<close>.
\<close>

definition linear_forecast :: "history \<Rightarrow> int \<Rightarrow> error + forecast_row list" where
  "linear_forecast df periods =
     (if df = [] then Inl (ValueError ''Found array with 0 sample(s)'')
      else
        (let last_date = Max (set (map fst df));
             future_dates = map (\<lambda>i. last_date + 30 * i) [1..periods];
             future_days = map (\<lambda>d. real_of_int (d - Min (set (map fst df)))) future_dates
         in if future_days = [] then Inl (ValueError ''Found array with 0 sample(s)'')
            else
              (let predictions = map (ols_predict (fitted df)) future_days;
                   std_error = np_std (residuals df);
                   margin = 196 / 100 * std_error
               in Inr (map2 (\<lambda>d p. \<lparr> ds = d, yhat = p, yhat_lower = p - margin,
                                       yhat_upper = p + margin \<rparr>)
                         future_dates predictions))))"

text \<open>
  \<open>_prophet_forecast\<close>. The parameter \<open>prophet\<close> stands for lines 37 to 52: importing the
  library, fitting, building the future frame and predicting; it returns the forecast
  frame or raises. Any exception inside the \<open>try\<close> leads to the linear forecast. On an
  empty history \<open>df['ds'].max()\<close> is NaT and the comparison keeps no row.
\<close>

definition prophet_forecast ::
  "(history \<Rightarrow> int \<Rightarrow> error + forecast_row list) \<Rightarrow> history \<Rightarrow> int \<Rightarrow>
   error + forecast_row list" where
  "prophet_forecast prophet df periods =
     (case prophet df periods of
        Inl e \<Rightarrow> linear_forecast df periods
      | Inr forecast \<Rightarrow>
          Inr (filter (\<lambda>r. df \<noteq> [] \<and> ds r > Max (set (map fst df))) forecast))"

text \<open>\<open>CMLForecastModel.predict\<close>\<close>

definition forecast_predict ::
  "(history \<Rightarrow> int \<Rightarrow> error + forecast_row list) \<Rightarrow> model_type \<Rightarrow> history \<Rightarrow> int \<Rightarrow>
   error + forecast_row list" where
  "forecast_predict prophet mt historical_data periods =
     (case mt of
        Prophet \<Rightarrow> prophet_forecast prophet historical_data periods
      | Linear \<Rightarrow> linear_forecast historical_data periods
      | Arima \<Rightarrow> linear_forecast historical_data periods)"

section \<open>Auxiliary definitions for the proofs\<close>

text \<open>
  Two result dicts are related when they hold the same keys in the same order and every
  entry that recommends elimination in the first also does in the second.
\<close>

definition rec_le :: "(string \<times> prediction) list \<Rightarrow> (string \<times> prediction) list \<Rightarrow> bool" where
  "rec_le hi lo = list_all2 (\<lambda>a b. fst a = fst b \<and>
      (recommendation (snd a) = ''eliminate'' \<longrightarrow> recommendation (snd b) = ''eliminate'')) hi lo"

text \<open>Example inputs: a CML with the given id and no other attribute set.\<close>

definition bare_cml :: "string \<Rightarrow> cml" where
  "bare_cml i =
     \<lparr> cml_id = i, commodity = None, material_type = None, feature_type = None,
       risk_level = None, design_thickness_mm = None, current_thickness_mm = None,
       average_corrosion_rate = None, remaining_life_years = None,
       years_in_service = None, number_of_inspections = None,
       data_quality_score = None, elimination_candidate = None \<rparr>"

text \<open>
  Example input: the series 2020-01-01, 2021-01-01, 2022-01-01 (as day numbers) with
  thickness 10, 9, 8.
\<close>

definition scenario :: history where
  "scenario = [(737425, 10), (737791, 9), (738156, 8)]"

text \<open>
  The columns of the frames that \<open>fit_transform\<close> and \<open>transform\<close> build, written out:
  \<open>impute_num\<close> and \<open>impute_cat\<close> are a column after the \<open>fillna\<close> of
  \<open>_handle_missing_values\<close>, \<open>imputed_frame\<close> is the frame after that function,
  \<open>encoded_columns\<close> are the columns the encoding loop appends, \<open>scaled\<close> is a numerical
  column after the scaler and \<open>output_frame\<close> is the frame returned.
\<close>

definition impute_num :: "real option list \<Rightarrow> real option list" where
  "impute_num xs = fillna (median xs) xs"

definition impute_cat :: "string option list \<Rightarrow> string option list" where
  "impute_cat xs = fillna (Some (if mode xs \<noteq> [] then hd (mode xs) else ''Unknown'')) xs"

definition risk_values :: "cml list \<Rightarrow> string option list" where
  "risk_values cmls = map (\<lambda>c. case risk_level c of Some v \<Rightarrow> Some v | None \<Rightarrow> Some ''Unknown'') cmls"

definition imputed_frame :: "cml list \<Rightarrow> frame" where
  "imputed_frame cmls =
        [(''cml_id'', StrCol (map (\<lambda>c. Some (cml_id c)) cmls)),
         (''commodity'', StrCol (impute_cat (map commodity cmls))),
         (''material_type'', StrCol (impute_cat (map material_type cmls))),
         (''feature_type'', StrCol (impute_cat (map feature_type cmls))),
         (''risk_level'', StrCol (impute_cat (risk_values cmls))),
         (''design_thickness_mm'', NumCol (impute_num (map design_thickness_mm cmls))),
         (''current_thickness_mm'', NumCol (impute_num (map current_thickness_mm cmls))),
         (''average_corrosion_rate'', NumCol (impute_num (map average_corrosion_rate cmls))),
         (''remaining_life_years'', NumCol (impute_num (map remaining_life_years cmls))),
         (''years_in_service'', NumCol (impute_num (map years_in_service cmls))),
         (''number_of_inspections'', NumCol (impute_num (map number_of_inspections cmls))),
         (''data_quality_score'', NumCol (impute_num (map data_quality_score cmls))),
         (''elimination_candidate'', BoolCol (map elimination_candidate cmls))]"

definition encoded_columns :: "(string list \<Rightarrow> string \<Rightarrow> int) \<Rightarrow> string list list \<Rightarrow> cml list \<Rightarrow> frame" where
  "encoded_columns enc cs cmls =
       [(''commodity_encoded'', IntCol (map (enc (cs ! 0)) (astype_str (impute_cat (map commodity cmls))))),
        (''material_type_encoded'', IntCol (map (enc (cs ! 1)) (astype_str (impute_cat (map material_type cmls))))),
        (''feature_type_encoded'', IntCol (map (enc (cs ! 2)) (astype_str (impute_cat (map feature_type cmls))))),
        (''risk_level_encoded'', IntCol (map (enc (cs ! 3)) (astype_str (impute_cat (risk_values cmls)))))]"

definition fitted_classes :: "cml list \<Rightarrow> string list list" where
  "fitted_classes cmls =
     [le_fit (astype_str (impute_cat (map commodity cmls))),
      le_fit (astype_str (impute_cat (map material_type cmls))),
      le_fit (astype_str (impute_cat (map feature_type cmls))),
      le_fit (astype_str (impute_cat (risk_values cmls)))]"

definition numeric_columns :: "cml list \<Rightarrow> real option list list" where
  "numeric_columns cmls =
     [impute_num (map design_thickness_mm cmls),
      impute_num (map current_thickness_mm cmls),
      impute_num (map average_corrosion_rate cmls),
      impute_num (map remaining_life_years cmls),
      impute_num (map years_in_service cmls),
      impute_num (map number_of_inspections cmls),
      impute_num (map data_quality_score cmls)]"

definition scaled :: "(real \<times> real) option list \<Rightarrow> cml list \<Rightarrow> nat \<Rightarrow> real option list" where
  "scaled sts cmls k = scale_column (sts ! k) (numeric_columns cmls ! k)"

definition output_frame ::
  "(string list \<Rightarrow> string \<Rightarrow> int) \<Rightarrow> string list list \<Rightarrow> (real \<times> real) option list \<Rightarrow>
   cml list \<Rightarrow> frame" where
  "output_frame enc cs sts cmls =
        [(''cml_id'', StrCol (map (\<lambda>c. Some (cml_id c)) cmls)),
         (''commodity'', StrCol (impute_cat (map commodity cmls))),
         (''material_type'', StrCol (impute_cat (map material_type cmls))),
         (''feature_type'', StrCol (impute_cat (map feature_type cmls))),
         (''risk_level'', StrCol (impute_cat (risk_values cmls))),
         (''design_thickness_mm'', NumCol (scaled sts cmls 0)),
         (''current_thickness_mm'', NumCol (scaled sts cmls 1)),
         (''average_corrosion_rate'', NumCol (scaled sts cmls 2)),
         (''remaining_life_years'', NumCol (scaled sts cmls 3)),
         (''years_in_service'', NumCol (scaled sts cmls 4)),
         (''number_of_inspections'', NumCol (scaled sts cmls 5)),
         (''data_quality_score'', NumCol (scaled sts cmls 6)),
         (''elimination_candidate'', BoolCol (map elimination_candidate cmls))]
        @ encoded_columns enc cs cmls @
        [(''total_corrosion_loss'', NumCol (map2 fmul (scaled sts cmls 2) (scaled sts cmls 4))),
         (''thickness_ratio'',
            NumCol (map2 fdiv (scaled sts cmls 1)
                      (map (\<lambda>d. fadd d (1 / 1000000)) (scaled sts cmls 0)))),
         (''inspection_frequency'',
            NumCol (map2 fdiv (scaled sts cmls 5) (map (\<lambda>y. fadd y 1) (scaled sts cmls 4)))),
         (''risk_score'', NumCol (map (\<lambda>r. fdiv (Some 1) (fadd r 1)) (scaled sts cmls 3)))]"

text \<open>Example input: a CML with every attribute set but for the three given ones.\<close>

definition sample_cml :: "string \<Rightarrow> string option \<Rightarrow> real option \<Rightarrow> real option \<Rightarrow> cml" where
  "sample_cml i com des cur =
     \<lparr> cml_id = i, commodity = com, material_type = Some ''CS'', feature_type = Some ''Elbow'',
       risk_level = Some ''Low'', design_thickness_mm = des, current_thickness_mm = cur,
       average_corrosion_rate = Some (1 / 10), remaining_life_years = Some 20,
       years_in_service = Some 5, number_of_inspections = Some 3,
       data_quality_score = Some (9 / 10), elimination_candidate = Some True \<rparr>"

section \<open>Properties of the elimination classifier\<close>

lemma rec_le_update:
  "rec_le hi lo \<Longrightarrow>
   (recommendation v = ''eliminate'' \<longrightarrow> recommendation w = ''eliminate'') \<Longrightarrow>
   rec_le (AList.update k v hi) (AList.update k w lo)"
  unfolding rec_le_def
  by (induction hi lo rule: list_all2_induct) auto

lemma rec_le_count: "rec_le hi lo \<Longrightarrow> count_eliminate hi \<le> count_eliminate lo"
  unfolding rec_le_def count_eliminate_def
  by (induction hi lo rule: list_all2_induct) auto

lemma build_results_rec_le:
  "t1 \<le> t2 \<Longrightarrow> rec_le hi lo \<Longrightarrow>
   build_results i cmls ps (predictions_of ps t2) t2 hi = Inr r2 \<Longrightarrow>
   build_results i cmls ps (predictions_of ps t1) t1 lo = Inr r1 \<Longrightarrow>
   rec_le r2 r1"
proof (induction cmls arbitrary: i hi lo)
  case Nil
  then show ?case by simp
next
  case (Cons c rest)
  from Cons.prems(3) have i: "i < length ps"
    by (simp split: if_splits)
  let ?v = "\<lambda>t. \<lparr> probability = ps ! i, confidence = max (ps ! i) (1 - ps ! i),
        recommendation = (if predictions_of ps t ! i = 1 then ''eliminate'' else ''keep''),
        threshold_used = t \<rparr>"
  have step: "rec_le (AList.update (cml_id c) (?v t2) hi) (AList.update (cml_id c) (?v t1) lo)"
    using Cons.prems(1,2) i by (intro rec_le_update) (auto simp: predictions_of_def)
  from Cons.prems(3,4) i show ?case
    by (intro Cons.IH [OF Cons.prems(1) step]) (simp_all add: predictions_of_def)
qed

lemma build_results_returns:
  "i + length cmls \<le> length ps \<Longrightarrow> length preds = length ps \<Longrightarrow>
   \<exists>r. build_results i cmls ps preds t acc = Inr r"
  by (induction cmls arbitrary: i acc) auto

lemma filter_threshold_mono:
  "(t1::real) \<le> t2 \<Longrightarrow>
   length (filter (\<lambda>p. p \<ge> t2) ps) \<le> length (filter (\<lambda>p. p \<ge> t1) ps)"
  by (induction ps) auto

text \<open>
  Claim C1 (threshold monotonicity). With a trained model and a fixed vector of class-1
  probabilities, one per record, \<open>predict\<close> returns under both thresholds, and raising the
  threshold from \<open>t1\<close> to \<open>t2\<close> does not increase the number of 'eliminate'
  recommendations: neither among the entries of the returned dict nor among the rows of
  the thresholded prediction vector.
\<close>

theorem predict_threshold_monotone:
  assumes "model self = Some m"
    and "proba m (preprocessor self) (feature_columns self) cmls = Inr ps"
    and "length cmls \<le> length ps"
    and "t1 \<le> t2"
  shows "\<exists>r1 r2. predict proba self cmls t1 = Inr r1 \<and> predict proba self cmls t2 = Inr r2 \<and>
           count_eliminate r2 \<le> count_eliminate r1 \<and>
           length (filter (\<lambda>p. p = 1) (predictions_of ps t2))
             \<le> length (filter (\<lambda>p. p = 1) (predictions_of ps t1))"
proof -
  obtain r1 where r1: "build_results 0 cmls ps (predictions_of ps t1) t1 [] = Inr r1"
    using build_results_returns [of 0 cmls ps "predictions_of ps t1" t1 "[]"] assms(3)
    by (auto simp: predictions_of_def)
  obtain r2 where r2: "build_results 0 cmls ps (predictions_of ps t2) t2 [] = Inr r2"
    using build_results_returns [of 0 cmls ps "predictions_of ps t2" t2 "[]"] assms(3)
    by (auto simp: predictions_of_def)
  have "rec_le [] []" by (simp add: rec_le_def)
  from build_results_rec_le [OF assms(4) this r2 r1]
  have "count_eliminate r2 \<le> count_eliminate r1" by (rule rec_le_count)
  moreover have "length (filter (\<lambda>p. p = 1) (predictions_of ps t2))
             \<le> length (filter (\<lambda>p. p = 1) (predictions_of ps t1))"
    using filter_threshold_mono [OF assms(4), of ps]
    by (simp add: predictions_of_def filter_map comp_def)
  ultimately show ?thesis
    using assms(1,2) r1 r2 by (simp add: predict_def)
qed

theorem predict_threshold_monotone_witness:
  "\<exists>r1 r2.
     predict (\<lambda>m p fc cs. Inr [9 / 10, 1 / 2])
       \<lparr> model = Some (), preprocessor = (), feature_columns = None, metrics = [] \<rparr>
       [bare_cml ''A'', bare_cml ''B''] (2 / 5) = Inr r1 \<and>
     predict (\<lambda>m p fc cs. Inr [9 / 10, 1 / 2])
       \<lparr> model = Some (), preprocessor = (), feature_columns = None, metrics = [] \<rparr>
       [bare_cml ''A'', bare_cml ''B''] (7 / 10) = Inr r2 \<and>
     count_eliminate r2 \<le> count_eliminate r1 \<and>
     length (filter (\<lambda>p. p = 1) (predictions_of [9 / 10, 1 / 2] (7 / 10)))
       \<le> length (filter (\<lambda>p. p = 1) (predictions_of [9 / 10, 1 / 2] (2 / 5)))"
  by (rule predict_threshold_monotone [where m = "()"]) simp_all

text \<open>
  Claim C6 (model unavailable). Whatever the records, the threshold and the rest of the
  object's state, \<open>predict\<close> on an object whose \<open>model\<close> is \<open>None\<close> raises the
  \<open>ValueError\<close> with the message "Model not trained or loaded" before anything else is
  evaluated, and so returns no prediction results.
\<close>

theorem predict_model_unavailable:
  "predict proba (self\<lparr>model := None\<rparr>) cmls threshold =
     Inl (ValueError ''Model not trained or loaded'')"
  by (simp add: predict_def)

section \<open>Properties of the forecast engine\<close>

lemma linear_forecast_empty:
  "linear_forecast [] periods = Inl (ValueError ''Found array with 0 sample(s)'')"
  by (simp add: linear_forecast_def)


lemma linear_forecast_returns:
  "df \<noteq> [] \<Longrightarrow> 1 \<le> periods \<Longrightarrow> \<exists>rows. linear_forecast df periods = Inr rows"
  by (simp add: linear_forecast_def Let_def)


lemma map2_row_date:
  "r \<in> set (map2 (\<lambda>d p. \<lparr> ds = d, yhat = p, yhat_lower = p - mg, yhat_upper = p + mg \<rparr>) dates preds)
   \<Longrightarrow> ds r \<in> set dates"
  by (auto dest: set_zip_leftD)

lemma linear_forecast_dates:
  assumes "linear_forecast df periods = Inr rows" and "r \<in> set rows"
  shows "df \<noteq> [] \<and> Max (set (map fst df)) < ds r"
proof -
  from assms(1) have ne: "df \<noteq> []"
    by (auto simp: linear_forecast_def)
  with assms have "ds r \<in> set (map (\<lambda>i. Max (set (map fst df)) + 30 * i) [1..periods])"
    unfolding linear_forecast_def Let_def
    by (intro map2_row_date [where mg = "196 / 100 * np_std (residuals df)"])
       (auto split: if_splits)
  then obtain i where "1 \<le> i" and "ds r = Max (set (map fst df)) + 30 * i"
    by auto
  with ne show ?thesis by simp
qed

text \<open>The fallback on the example series, evaluated step by step.\<close>

lemma days_scenario: "days scenario = [0, 366, 731]"
  by (simp add: days_def scenario_def)

lemma fitted_scenario: "fitted scenario = (- 2193 / 801542, 8015785 / 801542)"
  by (simp add: fitted_def days_scenario ols_fit_def mean_def Let_def power2_eq_square)
     (simp add: scenario_def)

lemma residuals_scenario: "residuals scenario = [- 365 / 801542, 731 / 801542, - 183 / 400771]"
  by (simp add: residuals_def fitted_scenario days_scenario ols_predict_def)
     (simp add: scenario_def)

lemma variance_scenario: "variance (residuals scenario) = 1 / 2404626"
  by (simp add: residuals_scenario variance_def mean_def power2_eq_square)

lemma std_scenario_pos: "0 < np_std (residuals scenario)"
  by (simp add: np_std_def variance_scenario)

lemma bounds_scenario:
  "Max (set (map fst scenario)) = 738156" "Min (set (map fst scenario)) = 737425"
  "scenario \<noteq> []"
  by (simp_all add: scenario_def)

lemma linear_scenario:
  "linear_forecast scenario 2 =
     Inr [\<lparr> ds = 738186, yhat = 3173456 / 400771,
            yhat_lower = 3173456 / 400771 - 196 / 100 * np_std (residuals scenario),
            yhat_upper = 3173456 / 400771 + 196 / 100 * np_std (residuals scenario) \<rparr>,
          \<lparr> ds = 738216, yhat = 3140561 / 400771,
            yhat_lower = 3140561 / 400771 - 196 / 100 * np_std (residuals scenario),
            yhat_upper = 3140561 / 400771 + 196 / 100 * np_std (residuals scenario) \<rparr>]"
  unfolding linear_forecast_def Let_def bounds_scenario fitted_scenario
  by (simp add: upto.simps ols_predict_def bounds_scenario(3))

text \<open>
  Claim C3 (forecast causality). Whatever the model type and whatever the primary
  strategy does, every row that \<open>predict\<close> returns has a date strictly after every date
  of the historical series, hence after its maximum.
\<close>

theorem forecast_dates_after_history:
  assumes "forecast_predict prophet mt df periods = Inr rows"
    and "r \<in> set rows" and "h \<in> set df"
  shows "fst h < ds r \<and> Max (set (map fst df)) < ds r"
proof -
  have le: "fst h \<le> Max (set (map fst df))"
    using assms(3) by (intro Max_ge) auto
  have "Max (set (map fst df)) < ds r"
  proof (cases "mt = Prophet \<and> (\<exists>fc. prophet df periods = Inr fc)")
    case True
    then obtain fc where "prophet df periods = Inr fc" by blast
    with True assms(1,2) show ?thesis
      by (auto simp: forecast_predict_def prophet_forecast_def)
  next
    case False
    then have "linear_forecast df periods = Inr rows"
      using assms(1)
      by (cases mt; cases "prophet df periods") (auto simp: forecast_predict_def prophet_forecast_def)
    from linear_forecast_dates [OF this assms(2)] show ?thesis by simp
  qed
  with le show ?thesis by simp
qed

theorem forecast_dates_after_history_witness:
  "forecast_predict (\<lambda>df p. Inr [\<lparr> ds = 738156, yhat = 8, yhat_lower = 7, yhat_upper = 9 \<rparr>,
                                  \<lparr> ds = 738187, yhat = 8, yhat_lower = 7, yhat_upper = 9 \<rparr>])
     Prophet scenario 2 = Inr [\<lparr> ds = 738187, yhat = 8, yhat_lower = 7, yhat_upper = 9 \<rparr>] \<and>
   (738156 :: int) < ds \<lparr> ds = 738187, yhat = 8, yhat_lower = 7, yhat_upper = 9 \<rparr>"
proof -
  let ?r = "\<lparr> ds = 738187, yhat = 8, yhat_lower = 7, yhat_upper = 9 \<rparr>"
  let ?p = "\<lambda>(df :: history) (p :: int).
     (Inr [\<lparr> ds = 738156, yhat = 8, yhat_lower = 7, yhat_upper = 9 \<rparr>, ?r] :: error + forecast_row list)"
  have h1: "forecast_predict ?p Prophet scenario 2 = Inr [?r]"
    by (simp add: forecast_predict_def prophet_forecast_def scenario_def)
  have h2: "?r \<in> set [?r]" by simp
  have h3: "(738156, 8) \<in> set scenario" by (simp add: scenario_def)
  from forecast_dates_after_history [OF h1 h2 h3] h1 show ?thesis by simp
qed




lemma std_scenario: "np_std (residuals scenario) = sqrt (1 / 2404626)"
  by (simp add: np_std_def variance_scenario)

lemma std_list: "np_std [- 365 / 801542, 731 / 801542, - 183 / 400771] = sqrt (1 / 2404626)"
  using std_scenario by (simp add: residuals_scenario)

lemma sqrt_scenario_pos: "0 < sqrt (1 / 2404626 :: real)"
  by simp

lemma normal_equations_scenario:
  "sum_list (residuals scenario) = 0"
  "sum_list (map2 (*) (residuals scenario) (days scenario)) = 0"
  by (simp_all add: residuals_scenario days_scenario)

text \<open>
  Claim C9 (fallback scenario). On the series 2020-01-01, 2021-01-01, 2022-01-01 (day
  numbers 737425, 737791, 738156) with thickness 10, 9, 8 and horizon 2 the linear
  forecast returns exactly two rows, dated 30 and 60 days after the last observation,
  with the point estimates 3173456/400771 and 3140561/400771 of the least-squares line
  through the three points (slope -2193/801542 per day, intercept 8015785/801542). The
  in-sample residuals of that line are -365/801542, 731/801542, -183/400771 (they sum to
  zero and are orthogonal to the regressor), their population standard deviation is the
  square root of 1/2404626, and in each row the lower bound is the point estimate minus,
  the upper bound the point estimate plus, 1.96 times that deviation: so
  lower < estimate < upper.
\<close>

theorem linear_forecast_scenario:
  "\<exists>r1 r2. linear_forecast [(737425, 10), (737791, 9), (738156, 8)] 2 = Inr [r1, r2] \<and>
     ds r1 = 738186 \<and> ds r2 = 738216 \<and> ds r1 < ds r2 \<and>
     yhat r1 = 3173456 / 400771 \<and> yhat r2 = 3140561 / 400771 \<and>
     yhat_lower r1 < yhat r1 \<and> yhat r1 < yhat_upper r1 \<and>
     yhat_lower r2 < yhat r2 \<and> yhat r2 < yhat_upper r2 \<and>
     yhat_lower r1 = yhat r1 - 196 / 100 * sqrt (1 / 2404626) \<and>
     yhat_upper r1 = yhat r1 + 196 / 100 * sqrt (1 / 2404626) \<and>
     yhat_lower r2 = yhat r2 - 196 / 100 * sqrt (1 / 2404626) \<and>
     yhat_upper r2 = yhat r2 + 196 / 100 * sqrt (1 / 2404626) \<and>
     days [(737425, 10), (737791, 9), (738156, 8)] = [0, 366, 731] \<and>
     fitted [(737425, 10), (737791, 9), (738156, 8)] = (- 2193 / 801542, 8015785 / 801542) \<and>
     residuals [(737425, 10), (737791, 9), (738156, 8)] =
       [- 365 / 801542, 731 / 801542, - 183 / 400771] \<and>
     sum_list (residuals [(737425, 10), (737791, 9), (738156, 8)]) = 0 \<and>
     sum_list (map2 (*) (residuals [(737425, 10), (737791, 9), (738156, 8)])
                        (days [(737425, 10), (737791, 9), (738156, 8)])) = 0 \<and>
     np_std [- 365 / 801542, 731 / 801542, - 183 / 400771] = sqrt (1 / 2404626)"
proof -
  have "\<exists>r1 r2. linear_forecast scenario 2 = Inr [r1, r2] \<and>
     ds r1 = 738186 \<and> ds r2 = 738216 \<and> ds r1 < ds r2 \<and>
     yhat r1 = 3173456 / 400771 \<and> yhat r2 = 3140561 / 400771 \<and>
     yhat_lower r1 < yhat r1 \<and> yhat r1 < yhat_upper r1 \<and>
     yhat_lower r2 < yhat r2 \<and> yhat r2 < yhat_upper r2 \<and>
     yhat_lower r1 = yhat r1 - 196 / 100 * sqrt (1 / 2404626) \<and>
     yhat_upper r1 = yhat r1 + 196 / 100 * sqrt (1 / 2404626) \<and>
     yhat_lower r2 = yhat r2 - 196 / 100 * sqrt (1 / 2404626) \<and>
     yhat_upper r2 = yhat r2 + 196 / 100 * sqrt (1 / 2404626)"
    using sqrt_scenario_pos by (simp add: linear_scenario std_scenario)
  moreover note days_scenario fitted_scenario residuals_scenario normal_equations_scenario std_list
  ultimately show ?thesis
    unfolding scenario_def by blast
qed

section \<open>Properties of the feature engineering stage\<close>

text \<open>The frame after each stage of the pipeline, for a batch that is not empty.\<close>

lemma handle_missing_values_frame:
  assumes "cmls \<noteq> []"
    and "categorical_features self = categorical_features init_preprocessor"
    and "numerical_features self = numerical_features init_preprocessor"
  shows "handle_missing_values self (cmls_to_dataframe cmls) = imputed_frame cmls"
  using assms
  by (simp add: handle_missing_values_def init_preprocessor_def cmls_to_dataframe_def
      fill_numerical_def fill_categorical_def has_column_def num_column_def str_column_def
      imputed_frame_def impute_num_def impute_cat_def risk_values_def)

lemma fit_encoders_frame:
  "fold fit_encoder (categorical_features init_preprocessor) (init_preprocessor, imputed_frame cmls) =
     (init_preprocessor\<lparr>label_encoders :=
         zip (categorical_features init_preprocessor) (fitted_classes cmls)\<rparr>,
      imputed_frame cmls @ encoded_columns le_transform (fitted_classes cmls) cmls)"
  by (simp add: init_preprocessor_def fit_encoder_def has_column_def str_column_def imputed_frame_def
      encoded_columns_def fitted_classes_def Let_def)

lemma numerical_cols_frame:
  "filter (has_column (imputed_frame cmls @ encoded_columns enc cs cmls))
     (numerical_features init_preprocessor) = numerical_features init_preprocessor"
  "map (num_column (imputed_frame cmls @ encoded_columns enc cs cmls))
     (numerical_features init_preprocessor) = numeric_columns cmls"
  by (simp_all add: init_preprocessor_def has_column_def num_column_def imputed_frame_def
        encoded_columns_def numeric_columns_def)


lemma finish_frame:
  "engineer_features
     (assign_columns (numerical_features init_preprocessor)
        (map2 scale_column [s0, s1, s2, s3, s4, s5, s6] (numeric_columns cmls))
        (imputed_frame cmls @ encoded_columns enc cs cmls)) =
   output_frame enc cs [s0, s1, s2, s3, s4, s5, s6] cmls"
  by (simp add: init_preprocessor_def assign_columns_def numeric_columns_def imputed_frame_def
      encoded_columns_def engineer_features_def has_column_def num_column_def output_frame_def
      scaled_def Let_def)


lemma scaler_fit_numeric:
  "scaler_fit (numeric_columns cmls) =
     [column_stats (numeric_columns cmls ! 0), column_stats (numeric_columns cmls ! 1),
      column_stats (numeric_columns cmls ! 2), column_stats (numeric_columns cmls ! 3),
      column_stats (numeric_columns cmls ! 4), column_stats (numeric_columns cmls ! 5),
      column_stats (numeric_columns cmls ! 6)]"
  by (simp add: scaler_fit_def numeric_columns_def)

lemma numerical_features_ne: "numerical_features init_preprocessor \<noteq> []"
  by (simp add: init_preprocessor_def)

lemma fit_transform_frame:
  assumes "cmls \<noteq> []"
  shows "fit_transform init_preprocessor cmls =
     (init_preprocessor\<lparr>label_encoders :=
          zip (categorical_features init_preprocessor) (fitted_classes cmls),
        scaler := Some (scaler_fit (numeric_columns cmls))\<rparr>,
      output_frame le_transform (fitted_classes cmls) (scaler_fit (numeric_columns cmls)) cmls)"
proof -
  have "engineer_features
     (assign_columns (numerical_features init_preprocessor)
        (map2 scale_column (scaler_fit (numeric_columns cmls)) (numeric_columns cmls))
        (imputed_frame cmls @ encoded_columns le_transform (fitted_classes cmls) cmls)) =
     output_frame le_transform (fitted_classes cmls) (scaler_fit (numeric_columns cmls)) cmls"
    unfolding scaler_fit_numeric by (rule finish_frame)
  then show ?thesis
    unfolding fit_transform_def Let_def
      handle_missing_values_frame [OF assms refl refl] fit_encoders_frame
    by (simp add: numerical_cols_frame numerical_features_ne)
qed

lemma apply_encoders_frame:
  assumes "categorical_features self = categorical_features init_preprocessor"
    and "label_encoders self = zip (categorical_features init_preprocessor) [c0, c1, c2, c3]"
  shows "fold (apply_encoder self) (categorical_features self) (imputed_frame cmls) =
     imputed_frame cmls @ encoded_columns encode_label [c0, c1, c2, c3] cmls"
  by (simp add: assms init_preprocessor_def apply_encoder_def has_column_def str_column_def
      imputed_frame_def encoded_columns_def)

lemma transform_frame:
  assumes "cmls \<noteq> []"
    and "categorical_features self = categorical_features init_preprocessor"
    and "numerical_features self = numerical_features init_preprocessor"
    and "label_encoders self = zip (categorical_features init_preprocessor) [c0, c1, c2, c3]"
    and "scaler self = Some [s0, s1, s2, s3, s4, s5, s6]"
  shows "transform self cmls =
     Inr (output_frame encode_label [c0, c1, c2, c3] [s0, s1, s2, s3, s4, s5, s6] cmls)"
proof -
  have len: "length (numeric_columns cmls) = 7"
    by (simp add: numeric_columns_def)
  show ?thesis
    unfolding transform_def Let_def
      handle_missing_values_frame [OF assms(1,2,3)] apply_encoders_frame [OF assms(2,4)]
    by (simp add: assms(3,5) numerical_cols_frame numerical_features_ne scaler_transform_def len
        finish_frame)
qed


lemma column_stats_single: "column_stats [Some x] = Some (x, 1)"
  by (simp add: column_stats_def mean_def variance_def)

lemma output_thickness_ratio:
  "num_column (output_frame enc cs sts cmls) ''thickness_ratio'' =
     map2 fdiv (scaled sts cmls 1) (map (\<lambda>d. fadd d (1 / 1000000)) (scaled sts cmls 0))"
  by (simp add: output_frame_def encoded_columns_def num_column_def)

lemma scaled_single:
  "scaled (scaler_fit (numeric_columns [sample_cml i com (Some d) (Some c)])) [sample_cml i' com' (Some d') (Some c')] 0
     = [Some (d' - d)]"
  "scaled (scaler_fit (numeric_columns [sample_cml i com (Some d) (Some c)])) [sample_cml i' com' (Some d') (Some c')] (Suc 0)
     = [Some (c' - c)]"
  by (simp_all add: scaled_def scaler_fit_def numeric_columns_def impute_num_def fillna_def
      sample_cml_def column_stats_single scale_column_def)

lemma fitted_single:
  "fst (fit_transform init_preprocessor [c]) =
     init_preprocessor\<lparr>label_encoders :=
          zip (categorical_features init_preprocessor) (fitted_classes [c]),
        scaler := Some (scaler_fit (numeric_columns [c]))\<rparr>"
  by (simp add: fit_transform_frame)

lemma sqrt_25: "sqrt 25 = 5" "sqrt (25 / 4) = 5 / 2"
  by (rule real_sqrt_unique; simp add: power2_eq_square)+

lemma column_stats_pairs:
  "column_stats [Some 10, Some 20] = Some (15, 5)"
  "column_stats [Some 10, Some 5] = Some (15 / 2, 5 / 2)"
  by (simp_all add: column_stats_def mean_def variance_def power2_eq_square sqrt_25)

lemma scaled_pair:
  "scaled (scaler_fit (numeric_columns
       [sample_cml i com (Some 10) (Some 10), sample_cml j com' (Some 20) (Some 5)]))
     [sample_cml i com (Some 10) (Some 10), sample_cml j com' (Some 20) (Some 5)] 0
     = [Some (- 1), Some 1]"
  "scaled (scaler_fit (numeric_columns
       [sample_cml i com (Some 10) (Some 10), sample_cml j com' (Some 20) (Some 5)]))
     [sample_cml i com (Some 10) (Some 10), sample_cml j com' (Some 20) (Some 5)] (Suc 0)
     = [Some 1, Some (- 1)]"
  by (simp_all add: scaled_def scaler_fit_def numeric_columns_def impute_num_def fillna_def
      sample_cml_def column_stats_pairs scale_column_def)

text \<open>
  With two records of different thickness the ratio is computed from the standardised
  columns as well: the record with design and current thickness 10 gets a ratio close
  to \<open>-1\<close>.
\<close>

lemma thickness_ratio_two_records:
  "num_column (snd (fit_transform init_preprocessor
       [sample_cml ''CML-1'' (Some ''Oil'') (Some 10) (Some 10),
        sample_cml ''CML-2'' (Some ''Oil'') (Some 20) (Some 5)]))
     ''thickness_ratio'' = [Some (- 1000000 / 999999), Some (- 1000000 / 1000001)]"
  by (simp add: fit_transform_frame output_thickness_ratio scaled_pair fdiv_def fadd_def)

text \<open>
  Claim C2, evaluated. For the single record with design thickness 10.0 and current
  thickness 10.0, \<open>fit_transform\<close> returns the thickness ratio 0, and so does \<open>transform\<close>
  with the preprocessor fitted on that record: both columns are standardised in place
  (to 0 here) before \<open>_engineer_features\<close> divides them, so the ratio is
  \<open>0 / (0 + 1e-6)\<close> and not \<open>10 / (10 + 1e-6)\<close>.
\<close>

theorem thickness_ratio_single_record:
  "\<exists>self df df'.
     fit_transform init_preprocessor [sample_cml ''CML-1'' (Some ''Oil'') (Some 10) (Some 10)]
       = (self, df) \<and>
     num_column df ''thickness_ratio'' = [Some 0] \<and>
     transform self [sample_cml ''CML-1'' (Some ''Oil'') (Some 10) (Some 10)] = Inr df' \<and>
     num_column df' ''thickness_ratio'' = [Some 0]"
proof -
  let ?c = "sample_cml ''CML-1'' (Some ''Oil'') (Some 10) (Some 10)"
  let ?self = "fst (fit_transform init_preprocessor [?c])"
  have fit: "num_column (snd (fit_transform init_preprocessor [?c])) ''thickness_ratio'' = [Some 0]"
    by (simp add: fit_transform_frame output_thickness_ratio scaled_single fdiv_def fadd_def)
  have "transform ?self [?c] =
     Inr (output_frame encode_label (fitted_classes [?c]) (scaler_fit (numeric_columns [?c])) [?c])"
    unfolding fitted_single scaler_fit_numeric fitted_classes_def
    by (rule transform_frame) (simp_all add: init_preprocessor_def)
  moreover have "num_column
      (output_frame encode_label (fitted_classes [?c]) (scaler_fit (numeric_columns [?c])) [?c])
      ''thickness_ratio'' = [Some 0]"
    by (simp add: output_thickness_ratio scaled_single fdiv_def fadd_def)
  ultimately show ?thesis
    using fit
    by (intro exI [of _ ?self] exI [of _ "snd (fit_transform init_preprocessor [?c])"]
          exI [of _ "output_frame encode_label (fitted_classes [?c])
                       (scaler_fit (numeric_columns [?c])) [?c]"]) simp
qed

lemma index_of_less: "x \<in> set ys \<Longrightarrow> index_of ys x < length ys \<and> ys ! index_of ys x = x"
  by (induction ys) auto

lemma encode_label_unseen: "x \<notin> set classes \<Longrightarrow> encode_label classes x = - 1"
  by (simp add: encode_label_def)

lemma encode_label_seen:
  "x \<in> set classes \<Longrightarrow>
   0 \<le> encode_label classes x \<and> encode_label classes x < int (length classes) \<and>
   classes ! nat (encode_label classes x) = x"
  using index_of_less [of x classes] by (simp add: encode_label_def le_transform_def)

lemma output_encoded:
  "map_of (output_frame enc cs sts cmls) ''commodity_encoded'' =
     Some (IntCol (map (enc (cs ! 0)) (astype_str (impute_cat (map commodity cmls)))))"
  "map_of (output_frame enc cs sts cmls) ''material_type_encoded'' =
     Some (IntCol (map (enc (cs ! Suc 0)) (astype_str (impute_cat (map material_type cmls)))))"
  "map_of (output_frame enc cs sts cmls) ''feature_type_encoded'' =
     Some (IntCol (map (enc (cs ! 2)) (astype_str (impute_cat (map feature_type cmls)))))"
  "map_of (output_frame enc cs sts cmls) ''risk_level_encoded'' =
     Some (IntCol (map (enc (cs ! 3)) (astype_str (impute_cat (risk_values cmls)))))"
  by (simp_all add: output_frame_def encoded_columns_def)

lemma imputed_str_columns:
  "str_column (imputed_frame cmls) ''commodity'' = impute_cat (map commodity cmls)"
  "str_column (imputed_frame cmls) ''material_type'' = impute_cat (map material_type cmls)"
  "str_column (imputed_frame cmls) ''feature_type'' = impute_cat (map feature_type cmls)"
  "str_column (imputed_frame cmls) ''risk_level'' = impute_cat (risk_values cmls)"
  by (simp_all add: imputed_frame_def str_column_def)

lemma fitted_encoders:
  "map_of (zip (categorical_features init_preprocessor) (fitted_classes cmls)) ''commodity'' = Some (fitted_classes cmls ! 0)"
  "map_of (zip (categorical_features init_preprocessor) (fitted_classes cmls)) ''material_type'' = Some (fitted_classes cmls ! Suc 0)"
  "map_of (zip (categorical_features init_preprocessor) (fitted_classes cmls)) ''feature_type'' = Some (fitted_classes cmls ! 2)"
  "map_of (zip (categorical_features init_preprocessor) (fitted_classes cmls)) ''risk_level'' = Some (fitted_classes cmls ! 3)"
  by (simp_all add: init_preprocessor_def fitted_classes_def)

lemma fitted_classes_set:
  "set (fitted_classes cmls ! 0) = set (astype_str (impute_cat (map commodity cmls)))"
  "set (fitted_classes cmls ! Suc 0) = set (astype_str (impute_cat (map material_type cmls)))"
  "set (fitted_classes cmls ! 2) = set (astype_str (impute_cat (map feature_type cmls)))"
  "set (fitted_classes cmls ! 3) = set (astype_str (impute_cat (risk_values cmls)))"
  by (simp_all add: fitted_classes_def le_fit_def)

lemma transform_fitted:
  assumes "train \<noteq> []" and "batch \<noteq> []"
  shows "transform (fst (fit_transform init_preprocessor train)) batch =
     Inr (output_frame encode_label (fitted_classes train) (scaler_fit (numeric_columns train)) batch)"
  unfolding fit_transform_frame [OF assms(1)] fst_conv scaler_fit_numeric fitted_classes_def
  by (rule transform_frame [OF assms(2)]) (simp_all add: init_preprocessor_def)

text \<open>
  Claim C5 (unseen categories). After \<open>fit_transform\<close> on a training batch, \<open>transform\<close> of
  any batch returns a frame (both batches not empty). For each categorical attribute
  the fitted encoder's classes are exactly the values the training column held after
  imputation, and the encoded column of the result is the inference column, after
  imputation, mapped through \<open>encode_label\<close>: a value that is not among the classes gets
  \<open>-1\<close>, and every class gets a code that is at least 0 and so differs from \<open>-1\<close>.
\<close>

theorem transform_unseen_label_sentinel:
  assumes "train \<noteq> []" and "batch \<noteq> []"
    and "col \<in> set (categorical_features init_preprocessor)"
  shows "\<exists>df classes.
     transform (fst (fit_transform init_preprocessor train)) batch = Inr df \<and>
     map_of (label_encoders (fst (fit_transform init_preprocessor train))) col = Some classes \<and>
     set classes =
       set (astype_str (str_column
              (handle_missing_values init_preprocessor (cmls_to_dataframe train)) col)) \<and>
     map_of df (col @ ''_encoded'') =
       Some (IntCol (map (encode_label classes)
          (astype_str (str_column
              (handle_missing_values init_preprocessor (cmls_to_dataframe batch)) col)))) \<and>
     (\<forall>x. x \<notin> set classes \<longrightarrow> encode_label classes x = - 1) \<and>
     (\<forall>x. x \<in> set classes \<longrightarrow> 0 \<le> encode_label classes x \<and> encode_label classes x \<noteq> - 1)"
proof -
  let ?out = "output_frame encode_label (fitted_classes train) (scaler_fit (numeric_columns train)) batch"
  have tr: "transform (fst (fit_transform init_preprocessor train)) batch = Inr ?out"
    by (rule transform_fitted [OF assms(1,2)])
  have les: "label_encoders (fst (fit_transform init_preprocessor train)) =
      zip (categorical_features init_preprocessor) (fitted_classes train)"
    by (simp add: fit_transform_frame [OF assms(1)])
  have hm: "handle_missing_values init_preprocessor (cmls_to_dataframe train) = imputed_frame train"
    "handle_missing_values init_preprocessor (cmls_to_dataframe batch) = imputed_frame batch"
    using assms(1,2) by (simp_all add: handle_missing_values_frame)
  from assms(3) consider "col = ''commodity''" | "col = ''material_type''"
    | "col = ''feature_type''" | "col = ''risk_level''"
    by (auto simp: init_preprocessor_def)
  then have "\<exists>classes. map_of (zip (categorical_features init_preprocessor) (fitted_classes train)) col = Some classes \<and>
     set classes = set (astype_str (str_column (imputed_frame train) col)) \<and>
     map_of ?out (col @ ''_encoded'') =
       Some (IntCol (map (encode_label classes) (astype_str (str_column (imputed_frame batch) col))))"
    by cases (simp_all add: fitted_encoders fitted_classes_set imputed_str_columns output_encoded)
  then obtain classes where c: "map_of (zip (categorical_features init_preprocessor) (fitted_classes train)) col = Some classes"
     "set classes = set (astype_str (str_column (imputed_frame train) col))"
     "map_of ?out (col @ ''_encoded'') =
       Some (IntCol (map (encode_label classes) (astype_str (str_column (imputed_frame batch) col))))"
    by blast
  have "(\<forall>x. x \<notin> set classes \<longrightarrow> encode_label classes x = - 1) \<and>
     (\<forall>x. x \<in> set classes \<longrightarrow> 0 \<le> encode_label classes x \<and> encode_label classes x \<noteq> - 1)"
  proof (intro conjI allI impI)
    fix x assume "x \<notin> set classes"
    then show "encode_label classes x = - 1" by (rule encode_label_unseen)
  next
    fix x assume "x \<in> set classes"
    from encode_label_seen [OF this] show "0 \<le> encode_label classes x" by simp
  next
    fix x assume "x \<in> set classes"
    from encode_label_seen [OF this] show "encode_label classes x \<noteq> - 1" by simp
  qed
  with tr c show ?thesis
    unfolding les hm by blast
qed


theorem transform_unseen_label_sentinel_witness:
  "\<exists>df. transform
          (fst (fit_transform init_preprocessor [sample_cml ''T'' (Some ''Oil'') (Some 10) (Some 10)]))
          [sample_cml ''B'' (Some ''Gas'') (Some 10) (Some 10)] = Inr df \<and>
        map_of df ''commodity_encoded'' = Some (IntCol [- 1])"
proof -
  let ?T = "sample_cml ''T'' (Some ''Oil'') (Some 10) (Some 10)"
  let ?B = "sample_cml ''B'' (Some ''Gas'') (Some 10) (Some 10)"
  have h1: "[?T] \<noteq> []" and h2: "[?B] \<noteq> []" by simp_all
  have h3: "''commodity'' \<in> set (categorical_features init_preprocessor)"
    by (simp add: init_preprocessor_def)
  have tv: "astype_str (str_column (handle_missing_values init_preprocessor (cmls_to_dataframe [?T]))
      ''commodity'') = [''Oil'']"
    by (simp add: handle_missing_values_frame imputed_str_columns impute_cat_def fillna_def
        astype_str_def sample_cml_def)
  have bv: "astype_str (str_column (handle_missing_values init_preprocessor (cmls_to_dataframe [?B]))
      ''commodity'') = [''Gas'']"
    by (simp add: handle_missing_values_frame imputed_str_columns impute_cat_def fillna_def
        astype_str_def sample_cml_def)
  from transform_unseen_label_sentinel [OF h1 h2 h3] obtain df classes where
    tr: "transform (fst (fit_transform init_preprocessor [?T])) [?B] = Inr df"
    and cl: "set classes = set [''Oil'']"
    and enc: "map_of df (''commodity'' @ ''_encoded'') = Some (IntCol (map (encode_label classes) [''Gas'']))"
    and unseen: "\<forall>x. x \<notin> set classes \<longrightarrow> encode_label classes x = - 1"
    unfolding tv bv by blast
  from cl have "''Gas'' \<notin> set classes" by simp
  with unseen have "encode_label classes ''Gas'' = - 1" by blast
  with tr enc show ?thesis by simp
qed

lemma output_str_columns:
  "str_column (output_frame enc cs sts cmls) ''commodity'' = impute_cat (map commodity cmls)"
  "str_column (output_frame enc cs sts cmls) ''material_type'' = impute_cat (map material_type cmls)"
  "str_column (output_frame enc cs sts cmls) ''feature_type'' = impute_cat (map feature_type cmls)"
  "str_column (output_frame enc cs sts cmls) ''risk_level'' = impute_cat (risk_values cmls)"
  by (simp_all add: output_frame_def encoded_columns_def str_column_def)

lemma output_num_columns:
  "num_column (output_frame enc cs sts cmls) ''design_thickness_mm'' = scaled sts cmls 0"
  "num_column (output_frame enc cs sts cmls) ''current_thickness_mm'' = scaled sts cmls (Suc 0)"
  "num_column (output_frame enc cs sts cmls) ''average_corrosion_rate'' = scaled sts cmls 2"
  "num_column (output_frame enc cs sts cmls) ''remaining_life_years'' = scaled sts cmls 3"
  "num_column (output_frame enc cs sts cmls) ''years_in_service'' = scaled sts cmls 4"
  "num_column (output_frame enc cs sts cmls) ''number_of_inspections'' = scaled sts cmls 5"
  "num_column (output_frame enc cs sts cmls) ''data_quality_score'' = scaled sts cmls 6"
  by (simp_all add: output_frame_def encoded_columns_def num_column_def)

lemma raw_str_columns:
  assumes "cmls \<noteq> []"
  shows "str_column (cmls_to_dataframe cmls) ''commodity'' = map commodity cmls"
    "str_column (cmls_to_dataframe cmls) ''material_type'' = map material_type cmls"
    "str_column (cmls_to_dataframe cmls) ''feature_type'' = map feature_type cmls"
    "str_column (cmls_to_dataframe cmls) ''risk_level'' = risk_values cmls"
  using assms by (simp_all add: cmls_to_dataframe_def str_column_def risk_values_def)

lemma raw_num_columns:
  assumes "cmls \<noteq> []"
  shows "num_column (cmls_to_dataframe cmls) ''design_thickness_mm'' = map design_thickness_mm cmls"
    "num_column (cmls_to_dataframe cmls) ''current_thickness_mm'' = map current_thickness_mm cmls"
    "num_column (cmls_to_dataframe cmls) ''average_corrosion_rate'' = map average_corrosion_rate cmls"
    "num_column (cmls_to_dataframe cmls) ''remaining_life_years'' = map remaining_life_years cmls"
    "num_column (cmls_to_dataframe cmls) ''years_in_service'' = map years_in_service cmls"
    "num_column (cmls_to_dataframe cmls) ''number_of_inspections'' = map number_of_inspections cmls"
    "num_column (cmls_to_dataframe cmls) ''data_quality_score'' = map data_quality_score cmls"
  using assms by (simp_all add: cmls_to_dataframe_def num_column_def)

lemma mode_all_missing: "dropna xs = [] \<Longrightarrow> mode xs = []"
  by (simp add: mode_def)

text \<open>
  Claim C10 (imputation per batch). Whatever scaler statistics and encoder classes were
  frozen at fit time, \<open>transform\<close> of a batch that is not empty returns a frame in which
  every categorical column is the batch's raw column with its missing values replaced by
  the first mode of that same column, or by 'Unknown' when the column has no mode, and
  every numerical column is the scaler applied to the batch's raw column with its missing
  values replaced by the median of that same column. A column whose values are all
  missing has no mode.
\<close>

theorem transform_imputes_from_batch:
  assumes "batch \<noteq> []"
  shows "\<exists>df.
     transform (init_preprocessor\<lparr>scaler := Some [s0, s1, s2, s3, s4, s5, s6],
                  label_encoders := zip (categorical_features init_preprocessor) [c0, c1, c2, c3]\<rparr>)
       batch = Inr df \<and>
     (\<forall>col \<in> set (categorical_features init_preprocessor).
        str_column df col =
          fillna (Some (if mode (str_column (cmls_to_dataframe batch) col) \<noteq> []
                        then hd (mode (str_column (cmls_to_dataframe batch) col))
                        else ''Unknown''))
            (str_column (cmls_to_dataframe batch) col)) \<and>
     (\<forall>cs \<in> set (zip (numerical_features init_preprocessor) [s0, s1, s2, s3, s4, s5, s6]).
        num_column df (fst cs) =
          scale_column (snd cs)
            (fillna (median (num_column (cmls_to_dataframe batch) (fst cs)))
               (num_column (cmls_to_dataframe batch) (fst cs)))) \<and>
     (\<forall>xs. dropna xs = [] \<longrightarrow> mode xs = [])"
proof -
  let ?self = "init_preprocessor\<lparr>scaler := Some [s0, s1, s2, s3, s4, s5, s6],
                  label_encoders := zip (categorical_features init_preprocessor) [c0, c1, c2, c3]\<rparr>"
  let ?out = "output_frame encode_label [c0, c1, c2, c3] [s0, s1, s2, s3, s4, s5, s6] batch"
  have tr: "transform ?self batch = Inr ?out"
    by (rule transform_frame [OF assms]) simp_all
  have cat: "\<forall>col \<in> set (categorical_features init_preprocessor).
        str_column ?out col =
          fillna (Some (if mode (str_column (cmls_to_dataframe batch) col) \<noteq> []
                        then hd (mode (str_column (cmls_to_dataframe batch) col))
                        else ''Unknown''))
            (str_column (cmls_to_dataframe batch) col)"
    by (simp add: init_preprocessor_def output_str_columns raw_str_columns [OF assms]
        impute_cat_def)
  have num: "\<forall>cs \<in> set (zip (numerical_features init_preprocessor) [s0, s1, s2, s3, s4, s5, s6]).
        num_column ?out (fst cs) =
          scale_column (snd cs)
            (fillna (median (num_column (cmls_to_dataframe batch) (fst cs)))
               (num_column (cmls_to_dataframe batch) (fst cs)))"
    by (simp add: init_preprocessor_def output_num_columns raw_num_columns [OF assms]
        scaled_def numeric_columns_def impute_num_def)
  from tr cat num show ?thesis
    by (intro exI [of _ ?out]) (simp add: mode_all_missing)
qed

text \<open>
  The same record, with no commodity and no design thickness, is imputed with 'Oil' and
  10 in one batch and with 'Gas' and 20 in another, under the same fitted state.
\<close>

theorem transform_imputes_from_batch_witness:
  "\<exists>df1 df2.
     transform (init_preprocessor\<lparr>scaler := Some [Some (0, 1), Some (0, 1), Some (0, 1), Some (0, 1),
                                                 Some (0, 1), Some (0, 1), Some (0, 1)],
                  label_encoders := zip (categorical_features init_preprocessor) [[], [], [], []]\<rparr>)
       [sample_cml ''R'' None None (Some 10), sample_cml ''A'' (Some ''Oil'') (Some 10) (Some 10)]
       = Inr df1 \<and>
     transform (init_preprocessor\<lparr>scaler := Some [Some (0, 1), Some (0, 1), Some (0, 1), Some (0, 1),
                                                 Some (0, 1), Some (0, 1), Some (0, 1)],
                  label_encoders := zip (categorical_features init_preprocessor) [[], [], [], []]\<rparr>)
       [sample_cml ''R'' None None (Some 10), sample_cml ''B'' (Some ''Gas'') (Some 20) (Some 10)]
       = Inr df2 \<and>
     str_column df1 ''commodity'' = [Some ''Oil'', Some ''Oil''] \<and>
     str_column df2 ''commodity'' = [Some ''Gas'', Some ''Gas''] \<and>
     num_column df1 ''design_thickness_mm'' = [Some 10, Some 10] \<and>
     num_column df2 ''design_thickness_mm'' = [Some 20, Some 20]"
proof -
  let ?R = "sample_cml ''R'' None None (Some 10)"
  let ?A = "sample_cml ''A'' (Some ''Oil'') (Some 10) (Some 10)"
  let ?B = "sample_cml ''B'' (Some ''Gas'') (Some 20) (Some 10)"
  have ne: "[?R, ?A] \<noteq> []" "[?R, ?B] \<noteq> []" by simp_all
  have mem: "''commodity'' \<in> set (categorical_features init_preprocessor)"
    "(''design_thickness_mm'', Some (0 :: real, 1 :: real)) \<in>
       set (zip (numerical_features init_preprocessor)
          [Some (0, 1), Some (0, 1), Some (0, 1), Some (0, 1), Some (0, 1), Some (0, 1), Some (0, 1)])"
    by (simp_all add: init_preprocessor_def)
  have modes: "mode [None, Some ''Oil''] = [''Oil'']" "mode [None, Some ''Gas''] = [''Gas'']"
    by (simp_all add: mode_def)
  have medians: "median [None, Some 10] = Some 10" "median [None, Some 20] = Some 20"
    by (simp_all add: median_def)
  have cols:
    "str_column (cmls_to_dataframe [?R, ?A]) ''commodity'' = [None, Some ''Oil'']"
    "str_column (cmls_to_dataframe [?R, ?B]) ''commodity'' = [None, Some ''Gas'']"
    "num_column (cmls_to_dataframe [?R, ?A]) ''design_thickness_mm'' = [None, Some 10]"
    "num_column (cmls_to_dataframe [?R, ?B]) ''design_thickness_mm'' = [None, Some 20]"
    by (simp_all add: raw_str_columns raw_num_columns sample_cml_def)
  from transform_imputes_from_batch [OF ne(1), where ?s0.0 = "Some (0, 1)" and ?s1.0 = "Some (0, 1)"
      and ?s2.0 = "Some (0, 1)" and ?s3.0 = "Some (0, 1)" and ?s4.0 = "Some (0, 1)"
      and ?s5.0 = "Some (0, 1)" and ?s6.0 = "Some (0, 1)"
      and ?c0.0 = "[]" and ?c1.0 = "[]" and ?c2.0 = "[]" and ?c3.0 = "[]"]
  obtain df1 where d1: "transform (init_preprocessor\<lparr>scaler := Some [Some (0, 1), Some (0, 1), Some (0, 1), Some (0, 1),
                                                 Some (0, 1), Some (0, 1), Some (0, 1)],
                  label_encoders := zip (categorical_features init_preprocessor) [[], [], [], []]\<rparr>)
       [?R, ?A] = Inr df1"
    and c1: "str_column df1 ''commodity'' = [Some ''Oil'', Some ''Oil'']"
    and n1: "num_column df1 ''design_thickness_mm'' = [Some 10, Some 10]"
    using mem by (fastforce simp: cols modes medians fillna_def scale_column_def)
  from transform_imputes_from_batch [OF ne(2), where ?s0.0 = "Some (0, 1)" and ?s1.0 = "Some (0, 1)"
      and ?s2.0 = "Some (0, 1)" and ?s3.0 = "Some (0, 1)" and ?s4.0 = "Some (0, 1)"
      and ?s5.0 = "Some (0, 1)" and ?s6.0 = "Some (0, 1)"
      and ?c0.0 = "[]" and ?c1.0 = "[]" and ?c2.0 = "[]" and ?c3.0 = "[]"]
  obtain df2 where d2: "transform (init_preprocessor\<lparr>scaler := Some [Some (0, 1), Some (0, 1), Some (0, 1), Some (0, 1),
                                                 Some (0, 1), Some (0, 1), Some (0, 1)],
                  label_encoders := zip (categorical_features init_preprocessor) [[], [], [], []]\<rparr>)
       [?R, ?B] = Inr df2"
    and c2: "str_column df2 ''commodity'' = [Some ''Gas'', Some ''Gas'']"
    and n2: "num_column df2 ''design_thickness_mm'' = [Some 20, Some 20]"
    using mem by (fastforce simp: cols modes medians fillna_def scale_column_def)
  from d1 d2 c1 c2 n1 n2 show ?thesis by blast
qed

section \<open>Properties of persistence\<close>

text \<open>A missing file and bytes that do not unpickle leave the object as it was.\<close>

lemma load_model_no_bundle:
  "load_model NoFile self = (self, Some FileNotFoundError)"
  "load_model Garbage self = (self, Some UnpicklingError)"
  by (simp_all add: load_model_def)

text \<open>
  A bundle that holds a classifier and no preprocessor: the classifier is assigned before
  the lookup of the next key raises, and the handler keeps it.
\<close>

lemma load_model_partial:
  "load_model (Pickled \<lparr> data_model = Some m, data_preprocessor = None,
                          data_feature_columns = fc, data_metrics = ms \<rparr>) self =
     (self\<lparr>model := m\<rparr>, Some (KeyError ''preprocessor''))"
  by (simp add: load_model_def)

text \<open>
  Claim C8, evaluated. Loading a bundle with a classifier (here the value 1) and none of
  the other three keys into an untrained object logs the \<open>KeyError\<close> for 'preprocessor'
  and leaves the object with the new classifier next to its old preprocessor, column
  list and metrics: the state after the failed load differs from the state before it.
\<close>

theorem load_model_partial_bundle:
  "load_model
     (Pickled \<lparr> data_model = Some (Some (1 :: nat)), data_preprocessor = None,
                data_feature_columns = None, data_metrics = None \<rparr>)
     \<lparr> model = None, preprocessor = (0 :: nat), feature_columns = None, metrics = [] \<rparr> =
   (\<lparr> model = Some 1, preprocessor = 0, feature_columns = None, metrics = [] \<rparr>,
    Some (KeyError ''preprocessor'')) \<and>
   \<lparr> model = Some (1 :: nat), preprocessor = (0 :: nat), feature_columns = None, metrics = [] \<rparr> \<noteq>
   \<lparr> model = None, preprocessor = 0, feature_columns = None, metrics = [] \<rparr>"
  by (simp add: load_model_def)

end
